theory Spec2Isabelle
  imports Main
begin

unbundle bit_operations_syntax

section \<open>The recovery middleware (package recovery) as a shallow embedding\<close>

text \<open>
  The package has one struct of options, one constructor \<^verbatim>\<open>New\<close>, the wrapper
  \<^verbatim>\<open>Handler\<close>, the setter \<^verbatim>\<open>SetPanicHandler\<close> and the default fallback
  \<^verbatim>\<open>defaultPanicHandler\<close>. Everything else it touches belongs to Go's standard
  library (\<^verbatim>\<open>log\<close>, \<^verbatim>\<open>net/http\<close>, \<^verbatim>\<open>runtime\<close>, \<^verbatim>\<open>fmt\<close>); those parts are
  modelled below from their documented behaviour, each under its Go name.

  A panic is a value of the sum \<open>outcome\<close>; every function that can panic returns its
  outcome together with the world it leaves behind.
\<close>

subsection \<open>Go values carried by a panic\<close>

text \<open>
  \<^verbatim>\<open>recover()\<close> returns an \<^verbatim>\<open>interface{}\<close>: nil, a string, an error, or any other value.
  \<open>VError m\<close> is an error whose \<^verbatim>\<open>Error()\<close> text is \<open>m\<close>; \<open>VOther t\<close> is a value of
  any other type, \<open>t\<close> being the text the verb \<^verbatim>\<open>%s\<close> prints for it. \<open>Panicked VNil\<close>
  is a panic for which \<^verbatim>\<open>recover()\<close> returns nil (\<^verbatim>\<open>panic(nil)\<close> before Go 1.21, or
  under \<^verbatim>\<open>GODEBUG=panicnil=1\<close>).
\<close>

datatype val = VNil | VString string | VError string | VOther string

datatype outcome = Returned | Panicked val

abbreviation newline :: char where
  "newline \<equiv> CHR 0x0A"

text \<open>What \<^verbatim>\<open>fmt\<close> prints for a value under the verb \<^verbatim>\<open>%s\<close>.\<close>

fun fmt_s :: "val \<Rightarrow> string" where
  "fmt_s VNil = ''%!s(<nil>)''"
| "fmt_s (VString t) = t"
| "fmt_s (VError m) = m"
| "fmt_s (VOther t) = t"

subsection \<open>Options, the logger and the middleware instance\<close>

text \<open>
  An \<^verbatim>\<open>io.Writer\<close> is named by a reference: the process's standard error stream, or a
  writer of the embedding application. \<open>Out = None\<close> is the nil interface.
\<close>

datatype writer = Stderr | UserWriter nat

record Options =
  IncludeFullStack :: bool
  StackSize :: int
  Prefix :: string
  DisableAutoBrackets :: bool
  Out :: "writer option"
  OutputFlags :: int

text \<open>The zero value \<^verbatim>\<open>Options{}\<close>.\<close>

definition Options_zero :: Options where
  "Options_zero =
     \<lparr>IncludeFullStack = False, StackSize = 0, Prefix = [], DisableAutoBrackets = False,
      Out = None, OutputFlags = 0\<rparr>"

text \<open>\<^verbatim>\<open>log.Logger\<close>: the three fields \<^verbatim>\<open>log.New(out, prefix, flag)\<close> binds.\<close>

record log_Logger =
  out :: writer
  prefix :: string
  flag :: int

definition log_New :: "writer \<Rightarrow> string \<Rightarrow> int \<Rightarrow> log_Logger" where
  "log_New w p f = \<lparr>out = w, prefix = p, flag = f\<rparr>"

text \<open>The flag bits of package \<^verbatim>\<open>log\<close>.\<close>

definition Ldate :: int where "Ldate = 1"
definition Ltime :: int where "Ltime = 2"
definition Lmicroseconds :: int where "Lmicroseconds = 4"
definition Llongfile :: int where "Llongfile = 8"
definition Lshortfile :: int where "Lshortfile = 16"
definition LUTC :: int where "LUTC = 32"
definition Lmsgprefix :: int where "Lmsgprefix = 64"
definition LstdFlags :: int where "LstdFlags = Ldate OR Ltime"

text \<open>
  An \<^verbatim>\<open>http.Handler\<close> value: the nil interface, the package's own
  \<^verbatim>\<open>http.HandlerFunc(defaultPanicHandler)\<close>, or a handler of the embedding application,
  named by its index in the application's handler table.
\<close>

datatype handler_val = NilHandler | DefaultPanicHandler | UserHandler nat

record Recovery =
  Logger :: log_Logger
  opt :: Options
  panicHandler :: handler_val

subsection \<open>New\<close>

text \<open>
  \<^verbatim>\<open>New(opts ...Options)\<close>: the variadic arguments are the list \<open>opts\<close>. The result is
  the struct the returned pointer refers to; the world below keeps it at an address.
\<close>

definition supplied :: "Options list \<Rightarrow> Options" where
  "supplied opts = (case opts of [] \<Rightarrow> Options_zero | x # _ \<Rightarrow> x)"

definition New :: "Options list \<Rightarrow> Recovery" where
  "New opts =
    (let o0 = supplied opts;
         o1 = (if StackSize o0 \<le> 0 then o0\<lparr>StackSize := 8 * 1024\<rparr> else o0);
         prefix1 = (if length (Prefix o1) > 0 \<and> DisableAutoBrackets o1 = False
                    then ''['' @ Prefix o1 @ ''] '' else Prefix o1);
         output = (case Out o1 of Some w \<Rightarrow> w | None \<Rightarrow> Stderr);
         flags = (if OutputFlags o1 = - 1 then 0
                  else if OutputFlags o1 \<noteq> 0 then OutputFlags o1
                  else LstdFlags)
     in \<lparr>Logger = log_New output prefix1 flags, opt = o1,
         panicHandler = DefaultPanicHandler\<rparr>)"

subsection \<open>The world: response recorders, sinks, clock, stack, and the instances\<close>

text \<open>
  \<^verbatim>\<open>http.ResponseWriter\<close> is an interface; the model is the recorder the package's tests
  use (\<^verbatim>\<open>httptest.ResponseRecorder\<close>), which follows the interface's contract: the first
  \<^verbatim>\<open>WriteHeader\<close> fixes the status code, later ones are ignored, and a \<^verbatim>\<open>Write\<close> before
  any \<^verbatim>\<open>WriteHeader\<close> implies \<^verbatim>\<open>WriteHeader(200)\<close>.
\<close>

record ResponseRecorder =
  Code :: int
  HeaderMap :: "string \<rightharpoonup> string"
  Body :: string
  wroteHeader :: bool

definition NewRecorder :: ResponseRecorder where
  "NewRecorder = \<lparr>Code = 200, HeaderMap = Map.empty, Body = [], wroteHeader = False\<rparr>"

definition WriteHeader :: "int \<Rightarrow> ResponseRecorder \<Rightarrow> ResponseRecorder" where
  "WriteHeader code rw =
     (if wroteHeader rw then rw else rw\<lparr>Code := code, wroteHeader := True\<rparr>)"

definition Write :: "string \<Rightarrow> ResponseRecorder \<Rightarrow> ResponseRecorder" where
  "Write buf rw =
     (let rw1 = (if wroteHeader rw then rw else WriteHeader 200 rw)
      in rw1\<lparr>Body := Body rw1 @ buf\<rparr>)"

record request =
  Method :: string
  RequestURI :: string

text \<open>
  What \<^verbatim>\<open>time.Now()\<close> reads as, already rendered the way \<^verbatim>\<open>log\<close> prints it:
  \<^verbatim>\<open>2009/01/23\<close>, \<^verbatim>\<open>01:23:23\<close> and the six digits of the microseconds.
\<close>

record timestamp =
  date_text :: string
  clock_text :: string
  micro_text :: string

text \<open>
  The world a request is served in. \<open>recoveries\<close> is the heap of \<^verbatim>\<open>*Recovery\<close>
  instances, \<open>responses\<close> the response writers, both by reference. \<open>sinks wr\<close> lists
  the byte strings handed to \<open>wr\<close>, one per \<^verbatim>\<open>Write\<close> call that returned. \<open>time_Now\<close>
  is the clock (the argument is \<^verbatim>\<open>true\<close> for UTC), \<open>runtime_Caller\<close> the file and
  line \<^verbatim>\<open>log\<close> reports for the logging call, and \<open>stackDump all\<close> the whole text
  \<^verbatim>\<open>runtime.Stack\<close> has to offer at this moment.
\<close>

record world =
  recoveries :: "nat \<Rightarrow> Recovery"
  responses :: "nat \<Rightarrow> ResponseRecorder"
  sinks :: "writer \<Rightarrow> string list"
  time_Now :: "bool \<Rightarrow> timestamp"
  runtime_Caller :: "string \<times> string"
  stackDump :: "bool \<Rightarrow> string"

text \<open>
  A handler is \<^verbatim>\<open>ServeHTTP(w, req)\<close>: it takes the reference of the response writer and
  the request, changes the world and returns or panics.
\<close>

type_synonym handler = "nat \<Rightarrow> request \<Rightarrow> world \<Rightarrow> outcome \<times> world"

text \<open>
  What the package cannot know: the application's handlers, how the application's
  writers behave (\<open>writers n buf = Some e\<close>: the \<^verbatim>\<open>Write\<close> of writer \<open>n\<close> panics with
  \<open>e\<close> on \<open>buf\<close>; \<open>None\<close>: it returns, with or without an error), and the largest
  length \<^verbatim>\<open>make([]byte, n)\<close> accepts on the platform.
\<close>

record setting =
  handlers :: "nat \<Rightarrow> handler"
  writers :: "nat \<Rightarrow> string \<Rightarrow> val option"
  maxAlloc :: int

subsection \<open>net/http: StatusText and Error\<close>

definition StatusBadRequest :: int where "StatusBadRequest = 400"
definition StatusInternalServerError :: int where "StatusInternalServerError = 500"

text \<open>\<^verbatim>\<open>http.StatusText\<close>, for the codes that occur here; the empty string for an unknown code.\<close>

definition StatusText :: "int \<Rightarrow> string" where
  "StatusText code =
     (if code = 200 then ''OK''
      else if code = 400 then ''Bad Request''
      else if code = 404 then ''Not Found''
      else if code = 500 then ''Internal Server Error''
      else [])"

definition on_response :: "nat \<Rightarrow> (ResponseRecorder \<Rightarrow> ResponseRecorder) \<Rightarrow> world \<Rightarrow> world" where
  "on_response w f s = s\<lparr>responses := (responses s)(w := f (responses s w))\<rparr>"

text \<open>
  \<^verbatim>\<open>http.Error(w, error, code)\<close> drops \<^verbatim>\<open>Content-Length\<close>, sets two headers, writes the
  status code and prints the message with \<^verbatim>\<open>fmt.Fprintln\<close>, that is, followed by a newline.
\<close>

definition http_Error_rw :: "string \<Rightarrow> int \<Rightarrow> ResponseRecorder \<Rightarrow> ResponseRecorder" where
  "http_Error_rw err code rw =
     (let h = (HeaderMap rw)(''Content-Length'' := None,
                 ''Content-Type'' \<mapsto> ''text/plain; charset=utf-8'',
                 ''X-Content-Type-Options'' \<mapsto> ''nosniff'')
      in Write (err @ [newline]) (WriteHeader code (rw\<lparr>HeaderMap := h\<rparr>)))"

definition http_Error :: "nat \<Rightarrow> string \<Rightarrow> int \<Rightarrow> world \<Rightarrow> world" where
  "http_Error w err code s = on_response w (http_Error_rw err code) s"

subsection \<open>log: the header and the one write of a log call\<close>

text \<open>The last path element, as \<^verbatim>\<open>Lshortfile\<close> cuts it: the byte at index 0 is not looked at.\<close>

definition shortfile :: "string \<Rightarrow> string" where
  "shortfile file =
     (case file of
        [] \<Rightarrow> []
      | c # cs \<Rightarrow> if CHR ''/'' \<in> set cs then rev (takeWhile (\<lambda>x. x \<noteq> CHR ''/'') (rev cs)) else file)"

text \<open>The date, time and source location \<^verbatim>\<open>formatHeader\<close> prints between prefix and message.\<close>

definition metadata :: "world \<Rightarrow> int \<Rightarrow> string" where
  "metadata s f =
     (let t = time_Now s (f AND LUTC \<noteq> 0)
      in (if f AND (Ldate OR Ltime OR Lmicroseconds) \<noteq> 0
          then (if f AND Ldate \<noteq> 0 then date_text t @ '' '' else [])
             @ (if f AND (Ltime OR Lmicroseconds) \<noteq> 0
                then clock_text t
                   @ (if f AND Lmicroseconds \<noteq> 0 then ''.'' @ micro_text t else [])
                   @ '' ''
                else [])
          else [])
       @ (if f AND (Lshortfile OR Llongfile) \<noteq> 0
          then (if f AND Lshortfile \<noteq> 0 then shortfile (fst (runtime_Caller s))
                else fst (runtime_Caller s))
             @ '':'' @ snd (runtime_Caller s) @ '': ''
          else []))"

definition formatHeader :: "world \<Rightarrow> string \<Rightarrow> int \<Rightarrow> string" where
  "formatHeader s p f =
     (if f AND Lmsgprefix = 0 then p else [])
     @ metadata s f
     @ (if f AND Lmsgprefix \<noteq> 0 then p else [])"

text \<open>The bytes of one log call: header, message, and a newline unless the message ends in one.\<close>

definition log_line :: "world \<Rightarrow> log_Logger \<Rightarrow> string \<Rightarrow> string" where
  "log_line s l msg =
     formatHeader s (prefix l) (flag l) @ msg
     @ (if msg = [] \<or> last msg \<noteq> newline then [newline] else [])"

definition io_Write :: "setting \<Rightarrow> writer \<Rightarrow> string \<Rightarrow> world \<Rightarrow> outcome \<times> world" where
  "io_Write E wr buf s =
     (let s1 = s\<lparr>sinks := (sinks s)(wr := sinks s wr @ [buf])\<rparr>
      in case wr of
           Stderr \<Rightarrow> (Returned, s1)
         | UserWriter n \<Rightarrow>
             (case writers E n buf of
                None \<Rightarrow> (Returned, s1)
              | Some e \<Rightarrow> (Panicked e, s)))"

text \<open>
  \<^verbatim>\<open>l.Printf(format, v...)\<close> formats the message, builds the line and hands it to the
  logger's writer in one \<^verbatim>\<open>Write\<close>; the error \<^verbatim>\<open>Write\<close> may return is dropped.
\<close>

definition log_Printf :: "setting \<Rightarrow> log_Logger \<Rightarrow> string \<Rightarrow> world \<Rightarrow> outcome \<times> world" where
  "log_Printf E l msg s = io_Write E (out l) (log_line s l msg) s"

subsection \<open>runtime: make and Stack\<close>

text \<open>
  \<^verbatim>\<open>make([]byte, n)\<close> panics for a negative length and for one beyond the platform's
  limit; otherwise it yields a buffer of \<open>n\<close> bytes.
\<close>

definition makeslice_error :: val where
  "makeslice_error = VError ''runtime error: makeslice: len out of range''"

definition make_bytes :: "setting \<Rightarrow> int \<Rightarrow> val + nat" where
  "make_bytes E n = (if n < 0 \<or> maxAlloc E < n then Inl makeslice_error else Inr (nat n))"

text \<open>
  \<^verbatim>\<open>stack[:runtime.Stack(stack, all)]\<close>: the stack text, cut to the length of the buffer.
\<close>

definition runtime_Stack :: "nat \<Rightarrow> bool \<Rightarrow> world \<Rightarrow> string" where
  "runtime_Stack n all s = take n (stackDump s all)"

subsection \<open>defaultPanicHandler, ServeHTTP, SetPanicHandler, Handler\<close>

definition defaultPanicHandler :: handler where
  "defaultPanicHandler w r s =
     (Returned,
      http_Error w (StatusText StatusInternalServerError) StatusInternalServerError s)"

definition nil_dereference :: val where
  "nil_dereference = VError ''runtime error: invalid memory address or nil pointer dereference''"

fun ServeHTTP :: "setting \<Rightarrow> handler_val \<Rightarrow> handler" where
  "ServeHTTP E NilHandler w req s = (Panicked nil_dereference, s)"
| "ServeHTTP E DefaultPanicHandler w req s = defaultPanicHandler w req s"
| "ServeHTTP E (UserHandler n) w req s = handlers E n w req s"

text \<open>\<^verbatim>\<open>r.SetPanicHandler(handler)\<close>, \<open>r\<close> being the address of the instance.\<close>

definition SetPanicHandler :: "nat \<Rightarrow> handler_val \<Rightarrow> world \<Rightarrow> world" where
  "SetPanicHandler r h s =
     s\<lparr>recoveries := (recoveries s)(r := (recoveries s r)\<lparr>panicHandler := h\<rparr>)\<rparr>"

text \<open>
  What the deferred function of the wrapper does, in the order it does it; the list is
  returned beside the result so that claims about order and number of calls can be stated.
\<close>

datatype event =
  is_EvServeHTTP: EvServeHTTP handler_val nat request
| is_EvStack: EvStack nat bool string
| is_EvWrite: EvWrite writer string

text \<open>
  The body of \<^verbatim>\<open>if err := recover(); err != nil { ... }\<close>, entered with the recovered
  value \<open>err\<close> in the world \<open>s\<close> the downstream handler left. The panic that was under
  way is over as soon as \<^verbatim>\<open>recover()\<close> has returned; a panic raised by one of the three
  calls of the body leaves the deferred function and with it the wrapper.
\<close>

definition recovered ::
  "setting \<Rightarrow> nat \<Rightarrow> val \<Rightarrow> nat \<Rightarrow> request \<Rightarrow> world \<Rightarrow> (outcome \<times> world) \<times> event list" where
  "recovered E r err w req s =
     (if err = VNil then ((Returned, s), [])
      else
        let h = panicHandler (recoveries s r) in
        (case ServeHTTP E h w req s of
           (Panicked e, s1) \<Rightarrow> ((Panicked e, s1), [EvServeHTTP h w req])
         | (Returned, s1) \<Rightarrow>
             (case make_bytes E (StackSize (opt (recoveries s1 r))) of
                Inl e \<Rightarrow> ((Panicked e, s1), [EvServeHTTP h w req])
              | Inr n \<Rightarrow>
                  let all = IncludeFullStack (opt (recoveries s1 r));
                      stack = runtime_Stack n all s1;
                      l = Logger (recoveries s1 r);
                      msg = ''Recovering from Panic: '' @ fmt_s err @ [newline] @ stack
                  in (log_Printf E l msg s1,
                      [EvServeHTTP h w req, EvStack n all stack,
                       EvWrite (out l) (log_line s1 l msg)]))))"

text \<open>
  \<^verbatim>\<open>r.Handler(next)\<close> is the closure over the pointer \<open>r\<close> and \<open>next\<close>; run on
  \<open>(w, req)\<close> it calls \<open>next\<close> and then the deferred function.
\<close>

definition Handler_run ::
  "setting \<Rightarrow> nat \<Rightarrow> handler_val \<Rightarrow> nat \<Rightarrow> request \<Rightarrow> world \<Rightarrow> (outcome \<times> world) \<times> event list" where
  "Handler_run E r next w req s =
     (case ServeHTTP E next w req s of
        (Returned, s1) \<Rightarrow> ((Returned, s1), [])
      | (Panicked err, s1) \<Rightarrow> recovered E r err w req s1)"

definition Handler :: "setting \<Rightarrow> nat \<Rightarrow> handler_val \<Rightarrow> handler" where
  "Handler E r next w req s = fst (Handler_run E r next w req s)"

definition Handler_events ::
  "setting \<Rightarrow> nat \<Rightarrow> handler_val \<Rightarrow> nat \<Rightarrow> request \<Rightarrow> world \<Rightarrow> event list" where
  "Handler_events E r next w req s = snd (Handler_run E r next w req s)"

subsection \<open>The handlers of the package's tests, and a world to run them in\<close>

text \<open>
  \<^verbatim>\<open>myHandler\<close> writes \<^verbatim>\<open>bar\<close>, \<^verbatim>\<open>myPanicHandler\<close> panics with a string, and
  \<^verbatim>\<open>customHandler\<close> answers 400; \<open>brokenHandler\<close> is a handler that panics with an
  error of its own, and \<open>nilPanicHandler\<close> one that writes and then panics with nil.
  The writers of the test setting are buffers: they never panic.
\<close>

definition myHandler :: handler where
  "myHandler w req s = (Returned, on_response w (Write ''bar'') s)"

definition myPanicHandler :: handler where
  "myPanicHandler w req s = (Panicked (VString ''this did not work''), s)"

definition customHandler :: handler where
  "customHandler w req s =
     (Returned,
      on_response w (Write ''You got 400 yo!'') (on_response w (WriteHeader StatusBadRequest) s))"

definition brokenHandler :: handler where
  "brokenHandler w req s = (Panicked (VError ''fallback failed''), s)"

definition nilPanicHandler :: handler where
  "nilPanicHandler w req s = (Panicked VNil, on_response w (Write ''partial'') s)"

text \<open>
  \<open>noisyHandler\<close> is a fallback whose run can be told from what comes after it: it
  answers 400, writes a line of its own to the application's writer 0 and starts a
  goroutine, which from then on shows in the full stack text.
\<close>

definition noisyHandler :: handler where
  "noisyHandler w req s =
     (Returned,
      (on_response w (Write ''sorry'') (on_response w (WriteHeader StatusBadRequest) s))
        \<lparr>sinks := (sinks s)(UserWriter 0 := sinks s (UserWriter 0) @ [''fallback ran'' @ [newline]]),
         stackDump := (\<lambda>all. if all then stackDump s True @ ''goroutine 9 [running]:'' @ [newline]
                             else stackDump s False)\<rparr>)"

definition test_setting :: setting where
  "test_setting =
     \<lparr>handlers = (\<lambda>n. if n = 0 then myHandler else if n = 1 then myPanicHandler
                     else if n = 2 then customHandler
                     else if n = 3 then brokenHandler
                     else if n = 4 then nilPanicHandler else noisyHandler),
      writers = (\<lambda>n buf. None),
      maxAlloc = 2 ^ 48\<rparr>"

definition test_request :: request where
  "test_request = \<lparr>Method = ''GET'', RequestURI = ''/foo''\<rparr>"

text \<open>The options of \<^verbatim>\<open>TestCustomPrefix\<close>, the buffer being the application's writer 0.\<close>

definition test_options :: Options where
  "test_options = Options_zero\<lparr>Prefix := ''testapp_-_yo'', Out := Some (UserWriter 0)\<rparr>"

definition test_world :: "Options list \<Rightarrow> world" where
  "test_world opts =
     \<lparr>recoveries = (\<lambda>r. New opts),
      responses = (\<lambda>w. NewRecorder),
      sinks = (\<lambda>wr. []),
      time_Now = (\<lambda>utc. \<lparr>date_text = ''2014/12/05'', clock_text = ''23:15:11'',
                          micro_text = ''000000''\<rparr>),
      runtime_Caller = (''/go/src/github.com/unrolled/recovery/recovery.go'', ''88''),
      stackDump = (\<lambda>all. if all then ''goroutine 5 [running]:'' @ [newline] @ ''goroutine 1 [IO wait]:'' @ [newline]
                         else ''goroutine 5 [running]:'' @ [newline])\<rparr>"

text \<open>
  An instance with the full stack switched on whose fallback handler is \<open>noisyHandler\<close>.
\<close>

definition noisy_world :: world where
  "noisy_world =
     SetPanicHandler 0 (UserHandler 5) (test_world [test_options\<lparr>IncludeFullStack := True\<rparr>])"

section \<open>Construction\<close>

lemma Logger_New:
  "Logger (New opts) =
     log_New (case Out (supplied opts) of Some w \<Rightarrow> w | None \<Rightarrow> Stderr)
       (if Prefix (supplied opts) \<noteq> [] \<and> \<not> DisableAutoBrackets (supplied opts)
        then ''['' @ Prefix (supplied opts) @ ''] '' else Prefix (supplied opts))
       (if OutputFlags (supplied opts) = - 1 then 0
        else if OutputFlags (supplied opts) = 0 then LstdFlags
        else OutputFlags (supplied opts))"
  by (simp add: New_def Let_def)

lemma opt_New:
  "opt (New opts) =
     (if StackSize (supplied opts) \<le> 0 then (supplied opts)\<lparr>StackSize := 8192\<rparr>
      else supplied opts)"
  by (simp add: New_def Let_def)

lemma panicHandler_New: "panicHandler (New opts) = DefaultPanicHandler"
  by (simp add: New_def Let_def)

lemma metadata_no_flags: "metadata s 0 = []"
  by (simp add: metadata_def)

lemma metadata_LstdFlags:
  "metadata s LstdFlags =
     date_text (time_Now s False) @ '' '' @ clock_text (time_Now s False) @ '' ''"
  by (simp add: metadata_def Let_def LstdFlags_def Ldate_def Ltime_def Lmicroseconds_def
      LUTC_def Lshortfile_def Llongfile_def)

text \<open>
  C6. The prefix the logger is built with is \<open>[\<close> prefix \<open>] \<close> when the supplied prefix
  is non-empty and \<^verbatim>\<open>DisableAutoBrackets\<close> is false, and the supplied prefix itself
  otherwise (so an empty prefix stays empty). Writing a log line copies the stored
  prefix as it is, before the metadata (after it under \<^verbatim>\<open>Lmsgprefix\<close>): no bracket is
  added at that time.
\<close>

theorem New_prefix_bracketed_once:
  "prefix (Logger (New opts)) =
     (if Prefix (supplied opts) \<noteq> [] \<and> \<not> DisableAutoBrackets (supplied opts)
      then ''['' @ Prefix (supplied opts) @ ''] '' else Prefix (supplied opts))
   \<and> log_line s (Logger (New opts)) msg =
       (if flag (Logger (New opts)) AND Lmsgprefix = 0
        then prefix (Logger (New opts)) @ metadata s (flag (Logger (New opts)))
        else metadata s (flag (Logger (New opts))) @ prefix (Logger (New opts)))
       @ msg @ (if msg = [] \<or> last msg \<noteq> newline then [newline] else [])"
  by (simp add: Logger_New log_New_def log_line_def formatHeader_def)

text \<open>The prefixes of \<^verbatim>\<open>TestCustomPrefix\<close> and \<^verbatim>\<open>TestCustomPrefixWithNoBrackets\<close>.\<close>

theorem New_prefix_bracketed_once_witness:
  "prefix (Logger (New [test_options])) = ''[testapp_-_yo] ''
   \<and> prefix (Logger (New [test_options\<lparr>DisableAutoBrackets := True\<rparr>])) = ''testapp_-_yo''
   \<and> prefix (Logger (New [])) = []"
  using New_prefix_bracketed_once [of "[test_options]"]
    New_prefix_bracketed_once [of "[test_options\<lparr>DisableAutoBrackets := True\<rparr>]"]
    New_prefix_bracketed_once [of "[]"]
  by (simp add: supplied_def test_options_def Options_zero_def)

text \<open>
  C7. The flags the logger is built with: none for the selector \<open>-1\<close>, the standard
  flags (date and time) for the selector \<open>0\<close>, and the selector itself otherwise. With no
  flag a line carries no metadata; with the standard flags it carries date and time.
\<close>

theorem New_flags_resolved:
  "flag (Logger (New opts)) =
     (if OutputFlags (supplied opts) = - 1 then 0
      else if OutputFlags (supplied opts) = 0 then LstdFlags
      else OutputFlags (supplied opts))
   \<and> LstdFlags = Ldate OR Ltime
   \<and> metadata s 0 = []
   \<and> metadata s LstdFlags =
       date_text (time_Now s False) @ '' '' @ clock_text (time_Now s False) @ '' ''"
proof (intro conjI)
  show "flag (Logger (New opts)) =
     (if OutputFlags (supplied opts) = - 1 then 0
      else if OutputFlags (supplied opts) = 0 then LstdFlags
      else OutputFlags (supplied opts))"
    by (simp add: Logger_New log_New_def)
  show "LstdFlags = Ldate OR Ltime"
    by (simp add: LstdFlags_def)
  show "metadata s 0 = []"
    by (rule metadata_no_flags)
  show "metadata s LstdFlags =
       date_text (time_Now s False) @ '' '' @ clock_text (time_Now s False) @ '' ''"
    by (rule metadata_LstdFlags)
qed

text \<open>The selectors of \<^verbatim>\<open>TestCustomFlagsZero\<close>, of the default and of \<^verbatim>\<open>TestCustomFlags\<close>.\<close>

theorem New_flags_resolved_witness:
  "flag (Logger (New [Options_zero\<lparr>OutputFlags := - 1\<rparr>])) = 0
   \<and> flag (Logger (New [])) = 3
   \<and> flag (Logger (New [Options_zero\<lparr>OutputFlags := Lshortfile\<rparr>])) = 16"
  using New_flags_resolved [of "[Options_zero\<lparr>OutputFlags := - 1\<rparr>]"]
    New_flags_resolved [of "[]"]
    New_flags_resolved [of "[Options_zero\<lparr>OutputFlags := Lshortfile\<rparr>]"]
  by (simp add: supplied_def Options_zero_def LstdFlags_def Ldate_def Ltime_def Lshortfile_def)

section \<open>The wrapper\<close>

lemma Handler_run_Returned:
  "ServeHTTP E next w req s = (Returned, s1) \<Longrightarrow> Handler_run E r next w req s = ((Returned, s1), [])"
  by (simp add: Handler_run_def)

lemma Handler_run_Panicked:
  "ServeHTTP E next w req s = (Panicked v, s1) \<Longrightarrow>
   Handler_run E r next w req s = recovered E r v w req s1"
  by (simp add: Handler_run_def)

lemma recovered_VNil: "recovered E r VNil w req s = ((Returned, s), [])"
  by (simp add: recovered_def)

lemma recovered_fallback_panics:
  assumes "v \<noteq> VNil"
    and "ServeHTTP E (panicHandler (recoveries s r)) w req s = (Panicked e, s1)"
  shows "recovered E r v w req s =
           ((Panicked e, s1), [EvServeHTTP (panicHandler (recoveries s r)) w req])"
  using assms by (simp add: recovered_def)

lemma recovered_make_panics:
  assumes "v \<noteq> VNil"
    and "ServeHTTP E (panicHandler (recoveries s r)) w req s = (Returned, s1)"
    and "make_bytes E (StackSize (opt (recoveries s1 r))) = Inl e"
  shows "recovered E r v w req s =
           ((Panicked e, s1), [EvServeHTTP (panicHandler (recoveries s r)) w req])"
  using assms by (simp add: recovered_def)

lemma recovered_logs:
  assumes "v \<noteq> VNil"
    and "ServeHTTP E (panicHandler (recoveries s r)) w req s = (Returned, s1)"
    and "make_bytes E (StackSize (opt (recoveries s1 r))) = Inr n"
  shows "recovered E r v w req s =
           (log_Printf E (Logger (recoveries s1 r))
              (''Recovering from Panic: '' @ fmt_s v @ [newline]
               @ runtime_Stack n (IncludeFullStack (opt (recoveries s1 r))) s1) s1,
            [EvServeHTTP (panicHandler (recoveries s r)) w req,
             EvStack n (IncludeFullStack (opt (recoveries s1 r)))
               (runtime_Stack n (IncludeFullStack (opt (recoveries s1 r))) s1),
             EvWrite (out (Logger (recoveries s1 r)))
               (log_line s1 (Logger (recoveries s1 r))
                  (''Recovering from Panic: '' @ fmt_s v @ [newline]
                   @ runtime_Stack n (IncludeFullStack (opt (recoveries s1 r))) s1))])"
  using assms by (simp add: recovered_def Let_def)


lemma responses_io_Write: "responses (snd (io_Write E wr buf s)) = responses s"
  by (simp add: io_Write_def Let_def split: writer.splits option.splits)

lemma responses_log_Printf: "responses (snd (log_Printf E l msg s)) = responses s"
  by (simp add: log_Printf_def responses_io_Write)

lemma responses_recovered:
  assumes "v \<noteq> VNil"
  shows "responses (snd (fst (recovered E r v w req s))) =
         responses (snd (ServeHTTP E (panicHandler (recoveries s r)) w req s))"
proof (cases "ServeHTTP E (panicHandler (recoveries s r)) w req s")
  case (Pair oc s1)
  show ?thesis
  proof (cases oc)
    case (Panicked e)
    with Pair assms show ?thesis
      by (simp add: recovered_fallback_panics)
  next
    case Returned
    show ?thesis
    proof (cases "make_bytes E (StackSize (opt (recoveries s1 r)))")
      case (Inl e)
      with Pair Returned assms show ?thesis
        by (simp add: recovered_make_panics)
    next
      case (Inr n)
      with Pair Returned assms show ?thesis
        by (simp add: recovered_logs responses_log_Printf)
    qed
  qed
qed

lemma events_recovered:
  assumes "v \<noteq> VNil"
  shows "snd (recovered E r v w req s) = [EvServeHTTP (panicHandler (recoveries s r)) w req]
       \<or> (\<exists>n all t wr line.
            snd (recovered E r v w req s) =
              [EvServeHTTP (panicHandler (recoveries s r)) w req, EvStack n all t, EvWrite wr line])"
proof (cases "ServeHTTP E (panicHandler (recoveries s r)) w req s")
  case (Pair oc s1)
  show ?thesis
  proof (cases oc)
    case (Panicked e)
    with Pair assms show ?thesis
      by (simp add: recovered_fallback_panics)
  next
    case Returned
    show ?thesis
    proof (cases "make_bytes E (StackSize (opt (recoveries s1 r)))")
      case (Inl e)
      with Pair Returned assms show ?thesis
        by (simp add: recovered_make_panics)
    next
      case (Inr n)
      with Pair Returned assms show ?thesis
        by (simp add: recovered_logs)
    qed
  qed
qed

lemma Handler_run_fallback_panics:
  assumes "ServeHTTP E next w req s = (Panicked v, s1)" and "v \<noteq> VNil"
    and "ServeHTTP E (panicHandler (recoveries s1 r)) w req s1 = (Panicked e, s2)"
  shows "Handler_run E r next w req s =
           ((Panicked e, s2), [EvServeHTTP (panicHandler (recoveries s1 r)) w req])"
  using assms by (simp add: Handler_run_Panicked recovered_fallback_panics)

lemma Handler_run_make_panics:
  assumes "ServeHTTP E next w req s = (Panicked v, s1)" and "v \<noteq> VNil"
    and "ServeHTTP E (panicHandler (recoveries s1 r)) w req s1 = (Returned, s2)"
    and "make_bytes E (StackSize (opt (recoveries s2 r))) = Inl e"
  shows "Handler_run E r next w req s =
           ((Panicked e, s2), [EvServeHTTP (panicHandler (recoveries s1 r)) w req])"
  using assms by (simp add: Handler_run_Panicked recovered_make_panics)

lemma Handler_run_logs:
  assumes "ServeHTTP E next w req s = (Panicked v, s1)" and "v \<noteq> VNil"
    and "ServeHTTP E (panicHandler (recoveries s1 r)) w req s1 = (Returned, s2)"
    and "make_bytes E (StackSize (opt (recoveries s2 r))) = Inr n"
  shows "Handler_run E r next w req s =
           (io_Write E (out (Logger (recoveries s2 r)))
              (log_line s2 (Logger (recoveries s2 r))
                 (''Recovering from Panic: '' @ fmt_s v @ [newline]
                  @ take n (stackDump s2 (IncludeFullStack (opt (recoveries s2 r)))))) s2,
            [EvServeHTTP (panicHandler (recoveries s1 r)) w req,
             EvStack n (IncludeFullStack (opt (recoveries s2 r)))
               (take n (stackDump s2 (IncludeFullStack (opt (recoveries s2 r))))),
             EvWrite (out (Logger (recoveries s2 r)))
               (log_line s2 (Logger (recoveries s2 r))
                  (''Recovering from Panic: '' @ fmt_s v @ [newline]
                   @ take n (stackDump s2 (IncludeFullStack (opt (recoveries s2 r))))))])"
  using assms
  by (simp add: Handler_run_Panicked recovered_logs log_Printf_def runtime_Stack_def)

lemma io_Write_sinks:
  "fst (io_Write E wr buf s) = Returned \<Longrightarrow>
   sinks (snd (io_Write E wr buf s)) = (sinks s)(wr := sinks s wr @ [buf])"
  by (simp add: io_Write_def Let_def split: writer.splits option.splits)

text \<open>
  C4. When the downstream handler returns, calling the wrapper is calling the handler:
  same outcome and same world (so the same response, status code and sinks), and the
  deferred function makes no call at all.
\<close>

theorem Handler_pass_through:
  assumes "fst (ServeHTTP E next w req s) = Returned"
  shows "Handler E r next w req s = ServeHTTP E next w req s
       \<and> Handler_events E r next w req s = []
       \<and> responses (snd (Handler E r next w req s)) w
           = responses (snd (ServeHTTP E next w req s)) w
       \<and> sinks (snd (Handler E r next w req s)) = sinks (snd (ServeHTTP E next w req s))"
proof -
  obtain s1 where run: "ServeHTTP E next w req s = (Returned, s1)"
    using assms by (cases "ServeHTTP E next w req s") simp
  then show ?thesis
    by (simp add: Handler_def Handler_events_def Handler_run_Returned)
qed

text \<open>The run of \<^verbatim>\<open>TestNoConfigGood\<close>.\<close>

theorem Handler_pass_through_witness:
  "fst (ServeHTTP test_setting (UserHandler 0) 0 test_request (test_world [])) = Returned
   \<and> Handler test_setting 0 (UserHandler 0) 0 test_request (test_world [])
       = ServeHTTP test_setting (UserHandler 0) 0 test_request (test_world [])
   \<and> Handler_events test_setting 0 (UserHandler 0) 0 test_request (test_world []) = []
   \<and> Code (responses (snd (Handler test_setting 0 (UserHandler 0) 0 test_request (test_world []))) 0)
       = 200
   \<and> Body (responses (snd (Handler test_setting 0 (UserHandler 0) 0 test_request (test_world []))) 0)
       = ''bar''"
proof -
  have run: "ServeHTTP test_setting (UserHandler 0) 0 test_request (test_world [])
               = (Returned, on_response 0 (Write ''bar'') (test_world []))"
    by (simp add: test_setting_def myHandler_def)
  have ok: "fst (ServeHTTP test_setting (UserHandler 0) 0 test_request (test_world [])) = Returned"
    unfolding run by simp
  note pass = Handler_pass_through [OF ok, of 0]
  have same: "Handler test_setting 0 (UserHandler 0) 0 test_request (test_world [])
                = ServeHTTP test_setting (UserHandler 0) 0 test_request (test_world [])"
    using pass by blast
  have none: "Handler_events test_setting 0 (UserHandler 0) 0 test_request (test_world []) = []"
    using pass by blast
  have code: "Code (responses (snd (Handler test_setting 0 (UserHandler 0) 0 test_request
                (test_world []))) 0) = 200"
    unfolding same run
    by (simp add: on_response_def Write_def WriteHeader_def test_world_def NewRecorder_def)
  have body: "Body (responses (snd (Handler test_setting 0 (UserHandler 0) 0 test_request
                (test_world []))) 0) = ''bar''"
    unfolding same run
    by (simp add: on_response_def Write_def WriteHeader_def test_world_def NewRecorder_def)
  show ?thesis
    using ok same none code body by blast
qed

text \<open>
  C10. When the downstream handler panics and the recovered value is nil, the wrapper
  returns normally in the very world the handler left: no fallback handler, no stack
  snapshot, no log line.
\<close>

theorem Handler_nil_panic_is_silent:
  assumes "ServeHTTP E next w req s = (Panicked VNil, s1)"
  shows "Handler E r next w req s = (Returned, s1) \<and> Handler_events E r next w req s = []"
  using assms
  by (simp add: Handler_def Handler_events_def Handler_run_Panicked recovered_VNil)

theorem Handler_nil_panic_is_silent_witness:
  "ServeHTTP test_setting (UserHandler 4) 0 test_request (test_world [])
     = (Panicked VNil, on_response 0 (Write ''partial'') (test_world []))
   \<and> Handler test_setting 0 (UserHandler 4) 0 test_request (test_world [])
       = (Returned, on_response 0 (Write ''partial'') (test_world []))
   \<and> Handler_events test_setting 0 (UserHandler 4) 0 test_request (test_world []) = []
   \<and> Body (responses (on_response 0 (Write ''partial'') (test_world [])) 0) = ''partial''
   \<and> sinks (on_response 0 (Write ''partial'') (test_world [])) Stderr = []"
proof -
  have run: "ServeHTTP test_setting (UserHandler 4) 0 test_request (test_world [])
               = (Panicked VNil, on_response 0 (Write ''partial'') (test_world []))"
    by (simp add: test_setting_def nilPanicHandler_def)
  note silent = Handler_nil_panic_is_silent [OF run, of 0]
  have body: "Body (responses (on_response 0 (Write ''partial'') (test_world [])) 0) = ''partial''"
    by (simp add: on_response_def Write_def WriteHeader_def test_world_def NewRecorder_def)
  have sink: "sinks (on_response 0 (Write ''partial'') (test_world [])) Stderr = []"
    by (simp add: on_response_def test_world_def)
  show ?thesis
    using run silent body sink by blast
qed

text \<open>The run of \<^verbatim>\<open>TestDefaultPanic\<close>: default instance, \<^verbatim>\<open>myPanicHandler\<close> downstream.\<close>

lemma run_myPanicHandler:
  "ServeHTTP test_setting (UserHandler 1) w test_request s
     = (Panicked (VString ''this did not work''), s)"
  by (simp add: test_setting_def myPanicHandler_def)

lemma recoveries_test_world: "recoveries (test_world opts) r = New opts"
  by (simp add: test_world_def)

section \<open>The log line\<close>

lemma log_line_panic:
  "log_line s l (''Recovering from Panic: '' @ d @ [newline] @ stack) =
     formatHeader s (prefix l) (flag l) @ ''Recovering from Panic: '' @ d @ [newline] @ stack
     @ (if stack = [] \<or> last stack = newline then [] else [newline])"
  by (cases "stack = []") (simp_all add: log_line_def)




text \<open>
  A run in which the fallback handler itself panics: the instance's fallback is
  \<open>brokenHandler\<close>, the downstream handler is \<^verbatim>\<open>myPanicHandler\<close>.
\<close>

lemma run_brokenHandler:
  "ServeHTTP test_setting (UserHandler 3) w test_request s
     = (Panicked (VError ''fallback failed''), s)"
  by (simp add: test_setting_def brokenHandler_def)

lemma panicHandler_SetPanicHandler: "panicHandler (recoveries (SetPanicHandler r h s) r) = h"
  by (simp add: SetPanicHandler_def)

lemma broken_fallback_run:
  "Handler_run test_setting 0 (UserHandler 1) 0 test_request
     (SetPanicHandler 0 (UserHandler 3) (test_world opts))
   = ((Panicked (VError ''fallback failed''), SetPanicHandler 0 (UserHandler 3) (test_world opts)),
      [EvServeHTTP (UserHandler 3) 0 test_request])"
proof -
  have nonnil: "VString ''this did not work'' \<noteq> VNil"
    by simp
  have fb: "ServeHTTP test_setting
              (panicHandler (recoveries (SetPanicHandler 0 (UserHandler 3) (test_world opts)) 0))
              0 test_request (SetPanicHandler 0 (UserHandler 3) (test_world opts))
            = (Panicked (VError ''fallback failed''),
               SetPanicHandler 0 (UserHandler 3) (test_world opts))"
    unfolding panicHandler_SetPanicHandler by (rule run_brokenHandler)
  show ?thesis
    unfolding Handler_run_Panicked [OF run_myPanicHandler]
    unfolding recovered_fallback_panics [OF nonnil fb]
    unfolding panicHandler_SetPanicHandler ..
qed



text \<open>The run of \<^verbatim>\<open>TestCustomPrefix\<close>: the default fallback answers, then the line is logged.\<close>

lemma recoveries_http_Error: "recoveries (http_Error w err code s) = recoveries s"
  by (simp add: http_Error_def on_response_def)

lemma run_default_fallback:
  "ServeHTTP test_setting (panicHandler (recoveries (test_world opts) r)) w test_request
     (test_world opts)
   = (Returned, http_Error w (StatusText StatusInternalServerError) StatusInternalServerError
        (test_world opts))"
  by (simp add: recoveries_test_world panicHandler_New defaultPanicHandler_def)

lemma recoveries_after_default_fallback:
  "recoveries (http_Error w err code (test_world opts)) r = New opts"
  by (simp add: recoveries_http_Error recoveries_test_world)

lemma New_test_options:
  "New [test_options] =
     \<lparr>Logger = \<lparr>out = UserWriter 0, prefix = ''[testapp_-_yo] '', flag = 3\<rparr>,
      opt = test_options\<lparr>StackSize := 8192\<rparr>,
      panicHandler = DefaultPanicHandler\<rparr>"
  by (simp add: New_def supplied_def test_options_def Options_zero_def log_New_def
      LstdFlags_def Ldate_def Ltime_def)

lemma IncludeFullStack_test_options: "IncludeFullStack test_options = False"
  by (simp add: test_options_def Options_zero_def)

lemma formatHeader_test_world:
  "formatHeader (http_Error w err code (test_world opts)) p 3 = p @ ''2014/12/05 23:15:11 ''"
  by (simp add: formatHeader_def metadata_def Let_def http_Error_def on_response_def
      test_world_def Lmsgprefix_def LUTC_def Ldate_def Ltime_def Lmicroseconds_def
      Lshortfile_def Llongfile_def)

lemma stackDump_test_world:
  "stackDump (http_Error w err code (test_world opts)) False = ''goroutine 5 [running]:'' @ [newline]"
  by (simp add: http_Error_def on_response_def test_world_def)


lemma io_Write_test_setting: "fst (io_Write test_setting wr buf s) = Returned"
  by (simp add: io_Write_def Let_def test_setting_def split: writer.splits)

lemma sinks_after_default_fallback:
  "sinks (http_Error w err code (test_world opts)) wr = []"
  by (simp add: http_Error_def on_response_def test_world_def)


section \<open>The order of the recovery\<close>

text \<open>
  C3. When the downstream handler panics and the recovered value is not nil, the
  deferred function first calls the fallback handler stored in the instance at that
  moment, on the wrapper's own response writer and request. It makes that call once,
  and the responses the wrapper leaves are the ones this one call left. What follows
  works on the world \<open>s2\<close> that call left. If the call panicked, the wrapper ends
  there, in \<open>s2\<close>. If it returned, the buffer is made from the options as they are in
  \<open>s2\<close>, the snapshot is the stack text of \<open>s2\<close> cut to the buffer, the log line is
  built in \<open>s2\<close> from that snapshot, and the one write of the line is done on \<open>s2\<close>:
  a sink holds what the fallback handler wrote to it, then the line.
\<close>

theorem fallback_once_before_stack_and_log:
  assumes run: "ServeHTTP E next w req s = (Panicked v, s1)" and nonnil: "v \<noteq> VNil"
  shows "(Handler_events E r next w req s = [EvServeHTTP (panicHandler (recoveries s1 r)) w req]
          \<or> (\<exists>m a t wr ln.
               Handler_events E r next w req s =
                 [EvServeHTTP (panicHandler (recoveries s1 r)) w req,
                  EvStack m a t, EvWrite wr ln]))
       \<and> filter is_EvServeHTTP (Handler_events E r next w req s)
           = [EvServeHTTP (panicHandler (recoveries s1 r)) w req]
       \<and> responses (snd (Handler E r next w req s))
           = responses (snd (ServeHTTP E (panicHandler (recoveries s1 r)) w req s1))
       \<and> (ServeHTTP E (panicHandler (recoveries s1 r)) w req s1 = (Panicked e, s2)
          \<longrightarrow> Handler E r next w req s = (Panicked e, s2)
            \<and> Handler_events E r next w req s
                = [EvServeHTTP (panicHandler (recoveries s1 r)) w req])
       \<and> (ServeHTTP E (panicHandler (recoveries s1 r)) w req s1 = (Returned, s2)
          \<and> make_bytes E (StackSize (opt (recoveries s2 r))) = Inl e
          \<longrightarrow> Handler E r next w req s = (Panicked e, s2)
            \<and> Handler_events E r next w req s
                = [EvServeHTTP (panicHandler (recoveries s1 r)) w req])
       \<and> (ServeHTTP E (panicHandler (recoveries s1 r)) w req s1 = (Returned, s2)
          \<and> make_bytes E (StackSize (opt (recoveries s2 r))) = Inr n
          \<longrightarrow> (let all = IncludeFullStack (opt (recoveries s2 r));
                   l = Logger (recoveries s2 r);
                   snap = take n (stackDump s2 all);
                   line = log_line s2 l (''Recovering from Panic: '' @ fmt_s v @ [newline] @ snap)
               in Handler E r next w req s = io_Write E (out l) line s2
                \<and> Handler_events E r next w req s
                    = [EvServeHTTP (panicHandler (recoveries s1 r)) w req,
                       EvStack n all snap, EvWrite (out l) line]
                \<and> (fst (io_Write E (out l) line s2) = Returned
                   \<longrightarrow> sinks (snd (Handler E r next w req s))
                       = (sinks s2)(out l := sinks s2 (out l) @ [line]))))"
proof -
  have ev: "Handler_events E r next w req s = snd (recovered E r v w req s1)"
    using run by (simp add: Handler_events_def Handler_run_Panicked)
  have shape: "snd (recovered E r v w req s1) = [EvServeHTTP (panicHandler (recoveries s1 r)) w req]
       \<or> (\<exists>m a t wr ln.
            snd (recovered E r v w req s1) =
              [EvServeHTTP (panicHandler (recoveries s1 r)) w req, EvStack m a t, EvWrite wr ln])"
    using nonnil by (rule events_recovered)
  have c1: "Handler_events E r next w req s = [EvServeHTTP (panicHandler (recoveries s1 r)) w req]
          \<or> (\<exists>m a t wr ln.
               Handler_events E r next w req s =
                 [EvServeHTTP (panicHandler (recoveries s1 r)) w req,
                  EvStack m a t, EvWrite wr ln])"
    unfolding ev by (rule shape)
  have c2: "filter is_EvServeHTTP (Handler_events E r next w req s)
                = [EvServeHTTP (panicHandler (recoveries s1 r)) w req]"
    using c1 by auto
  have c3: "responses (snd (Handler E r next w req s))
                = responses (snd (ServeHTTP E (panicHandler (recoveries s1 r)) w req s1))"
    using run nonnil by (simp add: Handler_def Handler_run_Panicked responses_recovered)
  have c4: "ServeHTTP E (panicHandler (recoveries s1 r)) w req s1 = (Panicked e, s2)
          \<longrightarrow> Handler E r next w req s = (Panicked e, s2)
            \<and> Handler_events E r next w req s
                = [EvServeHTTP (panicHandler (recoveries s1 r)) w req]"
    by (simp add: Handler_def Handler_events_def Handler_run_fallback_panics [OF run nonnil])
  have c5: "ServeHTTP E (panicHandler (recoveries s1 r)) w req s1 = (Returned, s2)
          \<and> make_bytes E (StackSize (opt (recoveries s2 r))) = Inl e
          \<longrightarrow> Handler E r next w req s = (Panicked e, s2)
            \<and> Handler_events E r next w req s
                = [EvServeHTTP (panicHandler (recoveries s1 r)) w req]"
    by (simp add: Handler_def Handler_events_def Handler_run_make_panics [OF run nonnil])
  have c6: "ServeHTTP E (panicHandler (recoveries s1 r)) w req s1 = (Returned, s2)
          \<and> make_bytes E (StackSize (opt (recoveries s2 r))) = Inr n
          \<longrightarrow> (let all = IncludeFullStack (opt (recoveries s2 r));
                   l = Logger (recoveries s2 r);
                   snap = take n (stackDump s2 all);
                   line = log_line s2 l (''Recovering from Panic: '' @ fmt_s v @ [newline] @ snap)
               in Handler E r next w req s = io_Write E (out l) line s2
                \<and> Handler_events E r next w req s
                    = [EvServeHTTP (panicHandler (recoveries s1 r)) w req,
                       EvStack n all snap, EvWrite (out l) line]
                \<and> (fst (io_Write E (out l) line s2) = Returned
                   \<longrightarrow> sinks (snd (Handler E r next w req s))
                       = (sinks s2)(out l := sinks s2 (out l) @ [line])))"
    by (simp add: Let_def Handler_def Handler_events_def Handler_run_logs [OF run nonnil]
        io_Write_sinks)
  show ?thesis
    using c1 c2 c3 c4 c5 c6 by (intro conjI)
qed

text \<open>A run in which the fallback handler is \<open>noisyHandler\<close>.\<close>

lemma run_next_noisy:
  "ServeHTTP test_setting (UserHandler 1) 0 test_request noisy_world
     = (Panicked (VString ''this did not work''), noisy_world)"
  by (rule run_myPanicHandler)

lemma panicHandler_noisy: "panicHandler (recoveries noisy_world 0) = UserHandler 5"
  by (simp add: noisy_world_def panicHandler_SetPanicHandler)

lemma run_noisy_fallback:
  "ServeHTTP test_setting (UserHandler 5) 0 test_request noisy_world
     = (Returned, snd (noisyHandler 0 test_request noisy_world))"
  by (simp add: test_setting_def noisyHandler_def)

lemma recoveries_after_noisy:
  "recoveries (snd (noisyHandler 0 test_request noisy_world)) 0
     = \<lparr>Logger = \<lparr>out = UserWriter 0, prefix = ''[testapp_-_yo] '', flag = 3\<rparr>,
        opt = test_options\<lparr>IncludeFullStack := True, StackSize := 8192\<rparr>,
        panicHandler = UserHandler 5\<rparr>"
  by (simp add: noisyHandler_def on_response_def noisy_world_def SetPanicHandler_def
      test_world_def New_def supplied_def test_options_def Options_zero_def log_New_def
      LstdFlags_def Ldate_def Ltime_def)

lemma stackDump_after_noisy:
  "stackDump (snd (noisyHandler 0 test_request noisy_world)) True
     = ''goroutine 5 [running]:'' @ [newline] @ ''goroutine 1 [IO wait]:'' @ [newline]
       @ ''goroutine 9 [running]:'' @ [newline]"
  by (simp add: noisyHandler_def on_response_def noisy_world_def SetPanicHandler_def
      test_world_def)

lemma sinks_after_noisy:
  "sinks (snd (noisyHandler 0 test_request noisy_world)) (UserWriter 0)
     = [''fallback ran'' @ [newline]]"
  by (simp add: noisyHandler_def on_response_def noisy_world_def SetPanicHandler_def
      test_world_def)

lemma formatHeader_after_noisy:
  "formatHeader (snd (noisyHandler 0 test_request noisy_world)) p 3 = p @ ''2014/12/05 23:15:11 ''"
  by (simp add: formatHeader_def metadata_def Let_def noisyHandler_def on_response_def
      noisy_world_def SetPanicHandler_def test_world_def Lmsgprefix_def LUTC_def Ldate_def
      Ltime_def Lmicroseconds_def Lshortfile_def Llongfile_def)

lemma make_after_noisy:
  "make_bytes test_setting
     (StackSize (opt (recoveries (snd (noisyHandler 0 test_request noisy_world)) 0))) = Inr 8192"
  by (simp add: recoveries_after_noisy make_bytes_def test_setting_def)

lemma line_after_noisy:
  "log_line (snd (noisyHandler 0 test_request noisy_world))
     (Logger (recoveries (snd (noisyHandler 0 test_request noisy_world)) 0))
     (''Recovering from Panic: '' @ fmt_s (VString ''this did not work'') @ [newline]
      @ take 8192 (stackDump (snd (noisyHandler 0 test_request noisy_world))
          (IncludeFullStack (opt (recoveries (snd (noisyHandler 0 test_request noisy_world)) 0)))))
   = ''[testapp_-_yo] 2014/12/05 23:15:11 Recovering from Panic: this did not work''
     @ [newline] @ ''goroutine 5 [running]:'' @ [newline] @ ''goroutine 1 [IO wait]:'' @ [newline]
     @ ''goroutine 9 [running]:'' @ [newline]"
  by (simp add: recoveries_after_noisy stackDump_after_noisy log_line_def
      formatHeader_after_noisy)

theorem fallback_once_before_stack_and_log_witness:
  "ServeHTTP test_setting (UserHandler 1) 0 test_request noisy_world
     = (Panicked (VString ''this did not work''), noisy_world)
   \<and> VString ''this did not work'' \<noteq> VNil
   \<and> panicHandler (recoveries noisy_world 0) = UserHandler 5
   \<and> sinks noisy_world (UserWriter 0) = []
   \<and> stackDump noisy_world True
       = ''goroutine 5 [running]:'' @ [newline] @ ''goroutine 1 [IO wait]:'' @ [newline]
   \<and> Handler_events test_setting 0 (UserHandler 1) 0 test_request noisy_world
       = [EvServeHTTP (UserHandler 5) 0 test_request,
          EvStack 8192 True
            (''goroutine 5 [running]:'' @ [newline] @ ''goroutine 1 [IO wait]:'' @ [newline]
             @ ''goroutine 9 [running]:'' @ [newline]),
          EvWrite (UserWriter 0)
            (''[testapp_-_yo] 2014/12/05 23:15:11 Recovering from Panic: this did not work''
             @ [newline] @ ''goroutine 5 [running]:'' @ [newline]
             @ ''goroutine 1 [IO wait]:'' @ [newline] @ ''goroutine 9 [running]:'' @ [newline])]
   \<and> sinks (snd (Handler test_setting 0 (UserHandler 1) 0 test_request noisy_world))
         (UserWriter 0)
       = [''fallback ran'' @ [newline],
          ''[testapp_-_yo] 2014/12/05 23:15:11 Recovering from Panic: this did not work''
          @ [newline] @ ''goroutine 5 [running]:'' @ [newline]
          @ ''goroutine 1 [IO wait]:'' @ [newline] @ ''goroutine 9 [running]:'' @ [newline]]"
proof -
  have nonnil: "VString ''this did not work'' \<noteq> VNil"
    by simp
  have before: "sinks noisy_world (UserWriter 0) = []"
    by (simp add: noisy_world_def SetPanicHandler_def test_world_def)
  have dump: "stackDump noisy_world True
       = ''goroutine 5 [running]:'' @ [newline] @ ''goroutine 1 [IO wait]:'' @ [newline]"
    by (simp add: noisy_world_def SetPanicHandler_def test_world_def)
  have fb: "ServeHTTP test_setting (panicHandler (recoveries noisy_world 0)) 0 test_request
              noisy_world = (Returned, snd (noisyHandler 0 test_request noisy_world))"
    unfolding panicHandler_noisy by (rule run_noisy_fallback)
  note order = fallback_once_before_stack_and_log
                 [OF run_next_noisy nonnil,
                  where r = 0 and ?s2.0 = "snd (noisyHandler 0 test_request noisy_world)"
                    and n = 8192]
  have after: "let all = IncludeFullStack
                     (opt (recoveries (snd (noisyHandler 0 test_request noisy_world)) 0));
                   l = Logger (recoveries (snd (noisyHandler 0 test_request noisy_world)) 0);
                   snap = take 8192
                     (stackDump (snd (noisyHandler 0 test_request noisy_world)) all);
                   line = log_line (snd (noisyHandler 0 test_request noisy_world)) l
                     (''Recovering from Panic: '' @ fmt_s (VString ''this did not work'')
                      @ [newline] @ snap)
               in Handler test_setting 0 (UserHandler 1) 0 test_request noisy_world
                    = io_Write test_setting (out l) line
                        (snd (noisyHandler 0 test_request noisy_world))
                \<and> Handler_events test_setting 0 (UserHandler 1) 0 test_request noisy_world
                    = [EvServeHTTP (panicHandler (recoveries noisy_world 0)) 0 test_request,
                       EvStack 8192 all snap, EvWrite (out l) line]
                \<and> (fst (io_Write test_setting (out l) line
                          (snd (noisyHandler 0 test_request noisy_world))) = Returned
                   \<longrightarrow> sinks (snd (Handler test_setting 0 (UserHandler 1) 0 test_request
                                      noisy_world))
                       = (sinks (snd (noisyHandler 0 test_request noisy_world)))
                           (out l := sinks (snd (noisyHandler 0 test_request noisy_world)) (out l)
                                     @ [line]))"
    using order fb make_after_noisy by blast
  have ev: "Handler_events test_setting 0 (UserHandler 1) 0 test_request noisy_world
       = [EvServeHTTP (UserHandler 5) 0 test_request,
          EvStack 8192 True
            (''goroutine 5 [running]:'' @ [newline] @ ''goroutine 1 [IO wait]:'' @ [newline]
             @ ''goroutine 9 [running]:'' @ [newline]),
          EvWrite (UserWriter 0)
            (''[testapp_-_yo] 2014/12/05 23:15:11 Recovering from Panic: this did not work''
             @ [newline] @ ''goroutine 5 [running]:'' @ [newline]
             @ ''goroutine 1 [IO wait]:'' @ [newline] @ ''goroutine 9 [running]:'' @ [newline])]"
  proof -
    have "Handler_events test_setting 0 (UserHandler 1) 0 test_request noisy_world
       = [EvServeHTTP (panicHandler (recoveries noisy_world 0)) 0 test_request,
          EvStack 8192
            (IncludeFullStack (opt (recoveries (snd (noisyHandler 0 test_request noisy_world)) 0)))
            (take 8192 (stackDump (snd (noisyHandler 0 test_request noisy_world))
               (IncludeFullStack
                  (opt (recoveries (snd (noisyHandler 0 test_request noisy_world)) 0))))),
          EvWrite (out (Logger (recoveries (snd (noisyHandler 0 test_request noisy_world)) 0)))
            (log_line (snd (noisyHandler 0 test_request noisy_world))
               (Logger (recoveries (snd (noisyHandler 0 test_request noisy_world)) 0))
               (''Recovering from Panic: '' @ fmt_s (VString ''this did not work'') @ [newline]
                @ take 8192 (stackDump (snd (noisyHandler 0 test_request noisy_world))
                    (IncludeFullStack
                       (opt (recoveries (snd (noisyHandler 0 test_request noisy_world)) 0))))))]"
      using after unfolding Let_def by blast
    then show ?thesis
      unfolding line_after_noisy
      by (simp add: recoveries_after_noisy stackDump_after_noisy panicHandler_noisy)
  qed
  have sink: "sinks (snd (Handler test_setting 0 (UserHandler 1) 0 test_request noisy_world))
         (UserWriter 0)
       = [''fallback ran'' @ [newline],
          ''[testapp_-_yo] 2014/12/05 23:15:11 Recovering from Panic: this did not work''
          @ [newline] @ ''goroutine 5 [running]:'' @ [newline]
          @ ''goroutine 1 [IO wait]:'' @ [newline] @ ''goroutine 9 [running]:'' @ [newline]]"
  proof -
    have "sinks (snd (Handler test_setting 0 (UserHandler 1) 0 test_request noisy_world))
       = (sinks (snd (noisyHandler 0 test_request noisy_world)))
           (out (Logger (recoveries (snd (noisyHandler 0 test_request noisy_world)) 0)) :=
              sinks (snd (noisyHandler 0 test_request noisy_world))
                (out (Logger (recoveries (snd (noisyHandler 0 test_request noisy_world)) 0)))
              @ [log_line (snd (noisyHandler 0 test_request noisy_world))
                   (Logger (recoveries (snd (noisyHandler 0 test_request noisy_world)) 0))
                   (''Recovering from Panic: '' @ fmt_s (VString ''this did not work'')
                    @ [newline]
                    @ take 8192 (stackDump (snd (noisyHandler 0 test_request noisy_world))
                        (IncludeFullStack
                           (opt (recoveries (snd (noisyHandler 0 test_request noisy_world))
                              0)))))])"
      using after io_Write_test_setting unfolding Let_def by blast
    then show ?thesis
      unfolding line_after_noisy
      by (simp add: recoveries_after_noisy sinks_after_noisy)
  qed
  show ?thesis
    using run_next_noisy nonnil panicHandler_noisy before dump ev sink by blast
qed

section \<open>Containment of the fault\<close>

text \<open>
  C1, as the code has it. The panic of the downstream handler ends in the deferred
  function, which has no statement that raises it again. The call of the wrapper returns
  normally when the calls of the deferred function return: the fallback handler, the
  making of the stack buffer and the write of the log line of this run. A panic that
  leaves the wrapper is one raised by one of these three, after a recovered value that
  is not nil: by the fallback handler, by \<^verbatim>\<open>make\<close>, or by the write of that very line.
\<close>

theorem Handler_contains_the_fault:
  assumes run: "ServeHTTP E next w req s = (Panicked v, s1)"
  shows "let FB = ServeHTTP E (panicHandler (recoveries s1 r)) w req s1;
             s2 = snd FB;
             l = Logger (recoveries s2 r);
             n = StackSize (opt (recoveries s2 r));
             line = log_line s2 l
                      (''Recovering from Panic: '' @ fmt_s v @ [newline]
                       @ take (nat n) (stackDump s2 (IncludeFullStack (opt (recoveries s2 r)))))
         in (fst FB = Returned \<and> 0 \<le> n \<and> n \<le> maxAlloc E
             \<and> fst (io_Write E (out l) line s2) = Returned
             \<longrightarrow> fst (Handler E r next w req s) = Returned)
          \<and> (fst (Handler E r next w req s) = Panicked e
             \<longrightarrow> v \<noteq> VNil
               \<and> (fst FB = Panicked e
                  \<or> fst FB = Returned
                    \<and> (make_bytes E n = Inl e
                       \<or> 0 \<le> n \<and> n \<le> maxAlloc E
                         \<and> fst (io_Write E (out l) line s2) = Panicked e)))"
proof -
  obtain oc s2 where FB: "ServeHTTP E (panicHandler (recoveries s1 r)) w req s1 = (oc, s2)"
    by (cases "ServeHTTP E (panicHandler (recoveries s1 r)) w req s1")
  show ?thesis
  proof (cases "v = VNil")
    case True
    then have "Handler E r next w req s = (Returned, s1)"
      by (simp add: Handler_def Handler_run_Panicked [OF run] recovered_VNil)
    then show ?thesis
      by (simp add: Let_def)
  next
    case nonnil: False
    show ?thesis
    proof (cases oc)
      case (Panicked e')
      then have "Handler E r next w req s = (Panicked e', s2)"
        using FB by (simp add: Handler_def Handler_run_fallback_panics [OF run nonnil])
      then show ?thesis
        using nonnil by (simp add: Let_def FB Panicked)
    next
      case Returned
      show ?thesis
      proof (cases "make_bytes E (StackSize (opt (recoveries s2 r)))")
        case (Inl e')
        then have "Handler E r next w req s = (Panicked e', s2)"
          using FB Returned
          by (simp add: Handler_def Handler_run_make_panics [OF run nonnil])
        then show ?thesis
          using nonnil Inl by (auto simp add: Let_def FB Returned make_bytes_def split: if_splits)
      next
        case (Inr m)
        then have size: "0 \<le> StackSize (opt (recoveries s2 r))"
          "StackSize (opt (recoveries s2 r)) \<le> maxAlloc E"
          "m = nat (StackSize (opt (recoveries s2 r)))"
          by (auto simp add: make_bytes_def split: if_splits)
        have "Handler E r next w req s =
                io_Write E (out (Logger (recoveries s2 r)))
                  (log_line s2 (Logger (recoveries s2 r))
                     (''Recovering from Panic: '' @ fmt_s v @ [newline]
                      @ take (nat (StackSize (opt (recoveries s2 r))))
                          (stackDump s2 (IncludeFullStack (opt (recoveries s2 r)))))) s2"
          using FB Returned Inr size(3)
          by (simp add: Handler_def Handler_run_logs [OF run nonnil])
        then show ?thesis
          using nonnil size Inr by (simp add: Let_def FB Returned)
      qed
    qed
  qed
qed

theorem Handler_contains_the_fault_witness:
  "ServeHTTP test_setting (UserHandler 1) 0 test_request (test_world [test_options])
     = (Panicked (VString ''this did not work''), test_world [test_options])
   \<and> ServeHTTP test_setting (panicHandler (recoveries (test_world [test_options]) 0)) 0
        test_request (test_world [test_options])
       = (Returned, http_Error 0 (StatusText StatusInternalServerError) StatusInternalServerError
            (test_world [test_options]))
   \<and> fst (Handler test_setting 0 (UserHandler 1) 0 test_request (test_world [test_options]))
       = Returned"
proof -
  have lo: "0 \<le> StackSize (opt (recoveries
              (http_Error 0 (StatusText StatusInternalServerError) StatusInternalServerError
                 (test_world [test_options])) 0))"
    by (simp add: recoveries_after_default_fallback New_test_options)
  have hi: "StackSize (opt (recoveries
              (http_Error 0 (StatusText StatusInternalServerError) StatusInternalServerError
                 (test_world [test_options])) 0)) \<le> maxAlloc test_setting"
    by (simp add: recoveries_after_default_fallback New_test_options test_setting_def)
  note contained = Handler_contains_the_fault
               [OF run_myPanicHandler [of 0 "test_world [test_options]"], where r = 0,
                unfolded Let_def run_default_fallback fst_conv snd_conv]
  have ret: "fst (Handler test_setting 0 (UserHandler 1) 0 test_request
                    (test_world [test_options])) = Returned"
    using contained lo hi io_Write_test_setting by blast
  show ?thesis
    using run_myPanicHandler [of 0 "test_world [test_options]"]
      run_default_fallback [of "[test_options]" 0 0] ret
    by blast
qed

theorem fallback_fault_leaves_the_wrapper:
  "fst (ServeHTTP test_setting (UserHandler 1) 0 test_request
          (SetPanicHandler 0 (UserHandler 3) (test_world [])))
     = Panicked (VString ''this did not work'')
   \<and> fst (Handler test_setting 0 (UserHandler 1) 0 test_request
            (SetPanicHandler 0 (UserHandler 3) (test_world [])))
       = Panicked (VError ''fallback failed'')
   \<and> fst (Handler test_setting 0 (UserHandler 1) 0 test_request
            (SetPanicHandler 0 (UserHandler 3) (test_world [])))
       \<noteq> Returned"
  unfolding Handler_def broken_fallback_run run_myPanicHandler by simp

section \<open>The default fallback handler\<close>









section \<open>The stack buffer\<close>

lemma StackSize_New:
  "StackSize (opt (New opts)) =
     (if 0 < StackSize (supplied opts) then StackSize (supplied opts) else 8192)"
  by (simp add: opt_New)

lemma IncludeFullStack_New:
  "IncludeFullStack (opt (New opts)) = IncludeFullStack (supplied opts)"
  by (simp add: opt_New)

lemma length_runtime_Stack: "length (runtime_Stack n all s) \<le> n"
  by (simp add: runtime_Stack_def)

text \<open>
  C8. The stack size \<^verbatim>\<open>New\<close> stores is positive: the supplied value when that is
  positive, 8192 otherwise. A snapshot taken into a buffer of that size is the stack
  text cut to that size, so it has at most that many bytes. In a run of the wrapper on
  an instance holding the options of \<^verbatim>\<open>New\<close>, the snapshot is the stack text of the
  world the fallback handler left, cut to that size; cutting is no fault: the deferred
  function goes on to the write, and the line it hands to the sink (the line the sink
  holds once the write has returned) carries that cut text and nothing more of the stack.
\<close>

theorem StackSize_positive_and_snapshot_bounded:
  "0 < StackSize (opt (New opts))
   \<and> StackSize (opt (New opts))
       = (if 0 < StackSize (supplied opts) then StackSize (supplied opts) else 8192)
   \<and> int (length (runtime_Stack (nat (StackSize (opt (New opts)))) all s0))
       \<le> StackSize (opt (New opts))
   \<and> runtime_Stack (nat (StackSize (opt (New opts)))) all s0
       = take (nat (StackSize (opt (New opts)))) (stackDump s0 all)
   \<and> (ServeHTTP E next w req s = (Panicked v, s1) \<and> v \<noteq> VNil
       \<and> ServeHTTP E (panicHandler (recoveries s1 r)) w req s1 = (Returned, s2)
       \<and> opt (recoveries s2 r) = opt (New opts)
       \<and> StackSize (opt (New opts)) \<le> maxAlloc E
      \<longrightarrow> (let n = nat (StackSize (opt (New opts)));
               all = IncludeFullStack (supplied opts);
               l = Logger (recoveries s2 r);
               snap = take n (stackDump s2 all);
               line = formatHeader s2 (prefix l) (flag l)
                      @ ''Recovering from Panic: '' @ fmt_s v @ [newline] @ snap
                      @ (if snap = [] \<or> last snap = newline then [] else [newline])
           in int (length snap) \<le> StackSize (opt (New opts))
            \<and> Handler_events E r next w req s =
                [EvServeHTTP (panicHandler (recoveries s1 r)) w req,
                 EvStack n all snap, EvWrite (out l) line]
            \<and> Handler E r next w req s = io_Write E (out l) line s2
            \<and> (fst (io_Write E (out l) line s2) = Returned
               \<longrightarrow> sinks (snd (Handler E r next w req s))
                   = (sinks s2)(out l := sinks s2 (out l) @ [line]))))"
proof (intro conjI)
  show pos: "0 < StackSize (opt (New opts))"
    by (simp add: StackSize_New)
  show "StackSize (opt (New opts))
       = (if 0 < StackSize (supplied opts) then StackSize (supplied opts) else 8192)"
    by (rule StackSize_New)
  have "length (runtime_Stack (nat (StackSize (opt (New opts)))) all s0)
          \<le> nat (StackSize (opt (New opts)))"
    by (rule length_runtime_Stack)
  then show "int (length (runtime_Stack (nat (StackSize (opt (New opts)))) all s0))
       \<le> StackSize (opt (New opts))"
    using pos by linarith
  show "runtime_Stack (nat (StackSize (opt (New opts)))) all s0
       = take (nat (StackSize (opt (New opts)))) (stackDump s0 all)"
    by (simp add: runtime_Stack_def)
  show "ServeHTTP E next w req s = (Panicked v, s1) \<and> v \<noteq> VNil
       \<and> ServeHTTP E (panicHandler (recoveries s1 r)) w req s1 = (Returned, s2)
       \<and> opt (recoveries s2 r) = opt (New opts)
       \<and> StackSize (opt (New opts)) \<le> maxAlloc E
      \<longrightarrow> (let n = nat (StackSize (opt (New opts)));
               all = IncludeFullStack (supplied opts);
               l = Logger (recoveries s2 r);
               snap = take n (stackDump s2 all);
               line = formatHeader s2 (prefix l) (flag l)
                      @ ''Recovering from Panic: '' @ fmt_s v @ [newline] @ snap
                      @ (if snap = [] \<or> last snap = newline then [] else [newline])
           in int (length snap) \<le> StackSize (opt (New opts))
            \<and> Handler_events E r next w req s =
                [EvServeHTTP (panicHandler (recoveries s1 r)) w req,
                 EvStack n all snap, EvWrite (out l) line]
            \<and> Handler E r next w req s = io_Write E (out l) line s2
            \<and> (fst (io_Write E (out l) line s2) = Returned
               \<longrightarrow> sinks (snd (Handler E r next w req s))
                   = (sinks s2)(out l := sinks s2 (out l) @ [line])))"
  proof (rule impI)
    assume hyps: "ServeHTTP E next w req s = (Panicked v, s1) \<and> v \<noteq> VNil
       \<and> ServeHTTP E (panicHandler (recoveries s1 r)) w req s1 = (Returned, s2)
       \<and> opt (recoveries s2 r) = opt (New opts)
       \<and> StackSize (opt (New opts)) \<le> maxAlloc E"
    then have run: "ServeHTTP E next w req s = (Panicked v, s1)" and nonnil: "v \<noteq> VNil"
      and fb: "ServeHTTP E (panicHandler (recoveries s1 r)) w req s1 = (Returned, s2)"
      and inst: "opt (recoveries s2 r) = opt (New opts)"
      and hi: "StackSize (opt (New opts)) \<le> maxAlloc E"
      by simp_all
    have mk: "make_bytes E (StackSize (opt (recoveries s2 r)))
              = Inr (nat (StackSize (opt (New opts))))"
      using pos hi by (simp add: inst make_bytes_def)
    have bound: "int (length (take (nat (StackSize (opt (New opts))))
                   (stackDump s2 (IncludeFullStack (supplied opts)))))
                 \<le> StackSize (opt (New opts))"
      using pos by simp
    note logs = Handler_run_logs [OF run nonnil fb mk, unfolded log_line_panic inst
                 IncludeFullStack_New]
    show "(let n = nat (StackSize (opt (New opts)));
               all = IncludeFullStack (supplied opts);
               l = Logger (recoveries s2 r);
               snap = take n (stackDump s2 all);
               line = formatHeader s2 (prefix l) (flag l)
                      @ ''Recovering from Panic: '' @ fmt_s v @ [newline] @ snap
                      @ (if snap = [] \<or> last snap = newline then [] else [newline])
           in int (length snap) \<le> StackSize (opt (New opts))
            \<and> Handler_events E r next w req s =
                [EvServeHTTP (panicHandler (recoveries s1 r)) w req,
                 EvStack n all snap, EvWrite (out l) line]
            \<and> Handler E r next w req s = io_Write E (out l) line s2
            \<and> (fst (io_Write E (out l) line s2) = Returned
               \<longrightarrow> sinks (snd (Handler E r next w req s))
                   = (sinks s2)(out l := sinks s2 (out l) @ [line])))"
      unfolding Let_def Handler_def Handler_events_def logs fst_conv snd_conv
      using bound by (simp add: io_Write_sinks)
  qed
qed

text \<open>The options of \<^verbatim>\<open>TestStackSize\<close>, with a buffer of ten bytes.\<close>

lemma New_small_stack:
  "opt (New [test_options\<lparr>StackSize := 10\<rparr>]) = test_options\<lparr>StackSize := 10\<rparr>"
  by (simp add: opt_New supplied_def)

lemma Logger_New_small_stack:
  "Logger (New [test_options\<lparr>StackSize := 10\<rparr>])
     = \<lparr>out = UserWriter 0, prefix = ''[testapp_-_yo] '', flag = 3\<rparr>"
  by (simp add: Logger_New supplied_def test_options_def Options_zero_def log_New_def
      LstdFlags_def Ldate_def Ltime_def)

theorem StackSize_positive_and_snapshot_bounded_witness:
  "ServeHTTP test_setting (UserHandler 1) 0 test_request
     (test_world [test_options\<lparr>StackSize := 10\<rparr>])
     = (Panicked (VString ''this did not work''), test_world [test_options\<lparr>StackSize := 10\<rparr>])
   \<and> VString ''this did not work'' \<noteq> VNil
   \<and> StackSize (opt (New [test_options\<lparr>StackSize := 10\<rparr>])) = 10
   \<and> StackSize (opt (New [])) = 8192
   \<and> stackDump (http_Error 0 (StatusText StatusInternalServerError) StatusInternalServerError
                   (test_world [test_options\<lparr>StackSize := 10\<rparr>])) False = ''goroutine 5 [running]:'' @ [newline]
   \<and> filter is_EvStack
        (Handler_events test_setting 0 (UserHandler 1) 0 test_request
           (test_world [test_options\<lparr>StackSize := 10\<rparr>]))
       = [EvStack 10 False ''goroutine '']
   \<and> sinks (snd (Handler test_setting 0 (UserHandler 1) 0 test_request (test_world [test_options\<lparr>StackSize := 10\<rparr>])))
         (UserWriter 0)
       = [''[testapp_-_yo] 2014/12/05 23:15:11 Recovering from Panic: this did not work''
          @ [newline] @ ''goroutine '' @ [newline]]"
proof -
  have nonnil: "VString ''this did not work'' \<noteq> VNil"
    by simp
  have inst: "opt (recoveries (http_Error 0 (StatusText StatusInternalServerError) StatusInternalServerError
                   (test_world [test_options\<lparr>StackSize := 10\<rparr>])) 0)
              = opt (New [test_options\<lparr>StackSize := 10\<rparr>])"
    by (simp only: recoveries_after_default_fallback)
  have hi: "StackSize (opt (New [test_options\<lparr>StackSize := 10\<rparr>])) \<le> maxAlloc test_setting"
    by (simp add: New_small_stack test_setting_def)
  note all = StackSize_positive_and_snapshot_bounded
               [where opts = "[test_options\<lparr>StackSize := 10\<rparr>]" and E = test_setting
                  and ?next = "UserHandler 1" and w = 0 and req = test_request
                  and s = "test_world [test_options\<lparr>StackSize := 10\<rparr>]"
                  and v = "VString ''this did not work''"
                  and ?s1.0 = "test_world [test_options\<lparr>StackSize := 10\<rparr>]" and r = 0
                  and ?s2.0 = "http_Error 0 (StatusText StatusInternalServerError) StatusInternalServerError
                   (test_world [test_options\<lparr>StackSize := 10\<rparr>])"]
  have size: "StackSize (opt (New [test_options\<lparr>StackSize := 10\<rparr>])) = 10"
    using all by (simp add: supplied_def)
  have dflt: "StackSize (opt (New [])) = 8192"
    by (simp add: StackSize_New supplied_def Options_zero_def)
  have dump: "stackDump (http_Error 0 (StatusText StatusInternalServerError) StatusInternalServerError
                   (test_world [test_options\<lparr>StackSize := 10\<rparr>])) False = ''goroutine 5 [running]:'' @ [newline]"
    by (rule stackDump_test_world)
  have run: "let n = nat (StackSize (opt (New [test_options\<lparr>StackSize := 10\<rparr>])));
               all = IncludeFullStack (supplied [test_options\<lparr>StackSize := 10\<rparr>]);
               l = Logger (recoveries (http_Error 0 (StatusText StatusInternalServerError) StatusInternalServerError
                   (test_world [test_options\<lparr>StackSize := 10\<rparr>])) 0);
               snap = take n (stackDump (http_Error 0 (StatusText StatusInternalServerError) StatusInternalServerError
                   (test_world [test_options\<lparr>StackSize := 10\<rparr>])) all);
               line = formatHeader (http_Error 0 (StatusText StatusInternalServerError) StatusInternalServerError
                   (test_world [test_options\<lparr>StackSize := 10\<rparr>])) (prefix l) (flag l)
                      @ ''Recovering from Panic: '' @ fmt_s (VString ''this did not work'')
                      @ [newline] @ snap
                      @ (if snap = [] \<or> last snap = newline then [] else [newline])
           in int (length snap) \<le> StackSize (opt (New [test_options\<lparr>StackSize := 10\<rparr>]))
            \<and> Handler_events test_setting 0 (UserHandler 1) 0 test_request (test_world [test_options\<lparr>StackSize := 10\<rparr>]) =
                [EvServeHTTP (panicHandler (recoveries (test_world [test_options\<lparr>StackSize := 10\<rparr>]) 0)) 0 test_request,
                 EvStack n all snap, EvWrite (out l) line]
            \<and> Handler test_setting 0 (UserHandler 1) 0 test_request (test_world [test_options\<lparr>StackSize := 10\<rparr>])
                = io_Write test_setting (out l) line (http_Error 0 (StatusText StatusInternalServerError) StatusInternalServerError
                   (test_world [test_options\<lparr>StackSize := 10\<rparr>]))
            \<and> (fst (io_Write test_setting (out l) line (http_Error 0 (StatusText StatusInternalServerError) StatusInternalServerError
                   (test_world [test_options\<lparr>StackSize := 10\<rparr>]))) = Returned
               \<longrightarrow> sinks (snd (Handler test_setting 0 (UserHandler 1) 0 test_request (test_world [test_options\<lparr>StackSize := 10\<rparr>])))
                   = (sinks (http_Error 0 (StatusText StatusInternalServerError) StatusInternalServerError
                   (test_world [test_options\<lparr>StackSize := 10\<rparr>])))(out l := sinks (http_Error 0 (StatusText StatusInternalServerError) StatusInternalServerError
                   (test_world [test_options\<lparr>StackSize := 10\<rparr>])) (out l) @ [line]))"
    using all run_myPanicHandler [of 0 "test_world [test_options\<lparr>StackSize := 10\<rparr>]"]
      nonnil run_default_fallback [of "[test_options\<lparr>StackSize := 10\<rparr>]" 0 0] inst hi
    by blast
  have evs: "Handler_events test_setting 0 (UserHandler 1) 0 test_request (test_world [test_options\<lparr>StackSize := 10\<rparr>]) =
            [EvServeHTTP (panicHandler (recoveries (test_world [test_options\<lparr>StackSize := 10\<rparr>]) 0)) 0 test_request,
             EvStack 10 False ''goroutine '',
             EvWrite (UserWriter 0)
               (''[testapp_-_yo] 2014/12/05 23:15:11 Recovering from Panic: this did not work''
                @ [newline] @ ''goroutine '' @ [newline])]"
    using run [unfolded Let_def, THEN conjunct2, THEN conjunct1]
    by (simp add: size supplied_def IncludeFullStack_test_options stackDump_test_world
          recoveries_after_default_fallback Logger_New_small_stack formatHeader_test_world)
  have snap: "filter is_EvStack
        (Handler_events test_setting 0 (UserHandler 1) 0 test_request (test_world [test_options\<lparr>StackSize := 10\<rparr>]))
       = [EvStack 10 False ''goroutine '']"
    unfolding evs by simp
  have sink: "sinks (snd (Handler test_setting 0 (UserHandler 1) 0 test_request (test_world [test_options\<lparr>StackSize := 10\<rparr>])))
         (UserWriter 0)
       = [''[testapp_-_yo] 2014/12/05 23:15:11 Recovering from Panic: this did not work''
          @ [newline] @ ''goroutine '' @ [newline]]"
    using run [unfolded Let_def, THEN conjunct2, THEN conjunct2, THEN conjunct2]
    by (simp add: size supplied_def IncludeFullStack_test_options stackDump_test_world
          recoveries_after_default_fallback Logger_New_small_stack formatHeader_test_world
          sinks_after_default_fallback io_Write_test_setting)
  show ?thesis
    using run_myPanicHandler [of 0 "test_world [test_options\<lparr>StackSize := 10\<rparr>]"] nonnil size dflt dump snap sink
    by blast
qed

section \<open>Replacing the fallback handler\<close>

lemma SetPanicHandler_twice:
  "SetPanicHandler r h (SetPanicHandler r h0 s) = SetPanicHandler r h s"
  by (simp add: SetPanicHandler_def)

text \<open>
  C9. After \<^verbatim>\<open>SetPanicHandler(h)\<close> the instance holds \<open>h\<close>, and of two calls the later
  one decides. A wrapper is the closure over the pointer to the instance, whenever it was
  made: run after the swap on a request whose downstream handler panics (recovered value
  not nil, no further swap in between), it calls \<open>h\<close>, once, on its response writer and
  request, and the responses it leaves are those \<open>h\<close> left.
\<close>

theorem SetPanicHandler_takes_effect:
  assumes run: "ServeHTTP E next w req (SetPanicHandler r h s) = (Panicked v, s1)"
    and nonnil: "v \<noteq> VNil"
    and kept: "panicHandler (recoveries s1 r) = h"
  shows "panicHandler (recoveries (SetPanicHandler r h s) r) = h
       \<and> SetPanicHandler r h (SetPanicHandler r h0 s) = SetPanicHandler r h s
       \<and> filter is_EvServeHTTP (Handler_events E r next w req (SetPanicHandler r h s))
           = [EvServeHTTP h w req]
       \<and> responses (snd (Handler E r next w req (SetPanicHandler r h s)))
           = responses (snd (ServeHTTP E h w req s1))"
proof -
  have ev: "Handler_events E r next w req (SetPanicHandler r h s)
              = snd (recovered E r v w req s1)"
    using run by (simp add: Handler_events_def Handler_run_Panicked)
  have "snd (recovered E r v w req s1) = [EvServeHTTP (panicHandler (recoveries s1 r)) w req]
       \<or> (\<exists>n all t wr line.
            snd (recovered E r v w req s1) =
              [EvServeHTTP (panicHandler (recoveries s1 r)) w req, EvStack n all t, EvWrite wr line])"
    using nonnil by (rule events_recovered)
  then have once: "filter is_EvServeHTTP (Handler_events E r next w req (SetPanicHandler r h s))
                     = [EvServeHTTP h w req]"
    unfolding ev kept by auto
  have "responses (snd (Handler E r next w req (SetPanicHandler r h s)))
          = responses (snd (ServeHTTP E (panicHandler (recoveries s1 r)) w req s1))"
    unfolding Handler_def Handler_run_Panicked [OF run]
    using nonnil by (rule responses_recovered)
  then have resp: "responses (snd (Handler E r next w req (SetPanicHandler r h s)))
                     = responses (snd (ServeHTTP E h w req s1))"
    unfolding kept .
  show ?thesis
    using panicHandler_SetPanicHandler [of r h s] SetPanicHandler_twice [of r h h0 s] once resp
    by blast
qed

text \<open>The run of \<^verbatim>\<open>TestCustomPanicHandler\<close>.\<close>

theorem SetPanicHandler_takes_effect_witness:
  "ServeHTTP test_setting (UserHandler 1) 0 test_request
     (SetPanicHandler 0 (UserHandler 2) (test_world []))
     = (Panicked (VString ''this did not work''), SetPanicHandler 0 (UserHandler 2) (test_world []))
   \<and> VString ''this did not work'' \<noteq> VNil
   \<and> panicHandler (recoveries (SetPanicHandler 0 (UserHandler 2) (test_world [])) 0) = UserHandler 2
   \<and> filter is_EvServeHTTP
        (Handler_events test_setting 0 (UserHandler 1) 0 test_request
           (SetPanicHandler 0 (UserHandler 2) (test_world [])))
       = [EvServeHTTP (UserHandler 2) 0 test_request]
   \<and> Code (responses (snd (Handler test_setting 0 (UserHandler 1) 0 test_request
              (SetPanicHandler 0 (UserHandler 2) (test_world [])))) 0) = 400
   \<and> Body (responses (snd (Handler test_setting 0 (UserHandler 1) 0 test_request
              (SetPanicHandler 0 (UserHandler 2) (test_world [])))) 0) = ''You got 400 yo!''"
proof -
  have nonnil: "VString ''this did not work'' \<noteq> VNil"
    by simp
  note eff = SetPanicHandler_takes_effect
               [OF run_myPanicHandler [of 0 "SetPanicHandler 0 (UserHandler 2) (test_world [])"]
                   nonnil panicHandler_SetPanicHandler]
  have once: "filter is_EvServeHTTP
        (Handler_events test_setting 0 (UserHandler 1) 0 test_request
           (SetPanicHandler 0 (UserHandler 2) (test_world [])))
       = [EvServeHTTP (UserHandler 2) 0 test_request]"
    using eff by blast
  have resp: "responses (snd (Handler test_setting 0 (UserHandler 1) 0 test_request
              (SetPanicHandler 0 (UserHandler 2) (test_world []))))
            = responses (snd (ServeHTTP test_setting (UserHandler 2) 0 test_request
                (SetPanicHandler 0 (UserHandler 2) (test_world []))))"
    using eff by blast
  have custom: "ServeHTTP test_setting (UserHandler 2) 0 test_request s
                  = customHandler 0 test_request s" for s
    by (simp add: test_setting_def)
  have code: "Code (responses (snd (Handler test_setting 0 (UserHandler 1) 0 test_request
              (SetPanicHandler 0 (UserHandler 2) (test_world [])))) 0) = 400"
    unfolding resp custom
    by (simp add: customHandler_def on_response_def Write_def WriteHeader_def
        SetPanicHandler_def test_world_def NewRecorder_def StatusBadRequest_def)
  have body: "Body (responses (snd (Handler test_setting 0 (UserHandler 1) 0 test_request
              (SetPanicHandler 0 (UserHandler 2) (test_world [])))) 0) = ''You got 400 yo!''"
    unfolding resp custom
    by (simp add: customHandler_def on_response_def Write_def WriteHeader_def
        SetPanicHandler_def test_world_def NewRecorder_def StatusBadRequest_def)
  show ?thesis
    using run_myPanicHandler [of 0 "SetPanicHandler 0 (UserHandler 2) (test_world [])"]
      nonnil panicHandler_SetPanicHandler [of 0 "UserHandler 2" "test_world []"] once code body
    by blast
qed

end
